theory Spec2Isabelle
  imports Complex_Main
begin

section \<open>Shared data: errors, dates, documents\<close>

text \<open>
  The services throw plain JavaScript \<^verbatim>\<open>Error\<close> objects that differ only in their
  (Korean) message, so each throw site of the modelled functions is one constructor.
  \<open>ModelError\<close> stands for whatever an absent Mongoose model method or schema validator
  of the repository (\<^verbatim>\<open>models/Task\<close>, \<^verbatim>\<open>models/User\<close>, \<^verbatim>\<open>models/Category\<close>,
  \<^verbatim>\<open>models/GrowthAlbum\<close>) raises.
\<close>

datatype js_error =
    InvalidCategory          \<comment> \<open>taskService.createTask: category not found for the user\<close>
  | TaskNotFound             \<comment> \<open>taskService.completeTask: no task with this id and user\<close>
  | TaskAlreadyCompleted     \<comment> \<open>taskService.completeTask: \<^verbatim>\<open>task.isCompleted\<close> already set\<close>
  | CannotCancel             \<comment> \<open>CoinTransaction.cancel on a non-pending transaction\<close>
  | AlreadyProcessed         \<comment> \<open>CoinTransaction.complete on a non-pending transaction\<close>
  | InsufficientBalance      \<comment> \<open>pre-save hook, \<^verbatim>\<open>error.code = 'INSUFFICIENT_BALANCE'\<close>\<close>
  | ZeroAmount               \<comment> \<open>pre-save hook, amount is 0\<close>
  | ValidationError          \<comment> \<open>Mongoose: a validator of the schema rejects the document\<close>
  | TypeError                \<comment> \<open>a method call on a value that does not have the method\<close>
  | ModelError string

text \<open>
  A JavaScript \<^verbatim>\<open>Date\<close> is its number of milliseconds since the epoch. An ObjectId is
  an opaque key, here a natural number.
\<close>

type_synonym date = int
type_synonym objectId = nat

text \<open>
  A string that the code trims or measures is its sequence of UTF-16 code units;
  \<open>utf16\<close> gives the code units of an ASCII text. The strings that the code only copies
  or compares with ASCII constants are byte strings. A value of the request body that the
  code calls a string method on is \<^verbatim>\<open>undefined\<close>, \<^verbatim>\<open>null\<close>, a string, or a
  value of another type (\<open>NonString\<close>: a number, a boolean, an array, an object).
\<close>

type_synonym js_string = "nat list"

definition utf16 :: "string \<Rightarrow> js_string" where
  "utf16 s = map of_char s"

datatype js_value = Undefined | Null | Str js_string | NonString

definition msPerDay :: int where
  "msPerDay = 86400000"

text \<open>
  \<^verbatim>\<open>d.toISOString().split('T')[0]\<close> is the UTC calendar date of \<open>d\<close> as text
  \<^verbatim>\<open>YYYY-MM-DD\<close>; two such texts are equal exactly when the UTC day numbers are, so the
  text is represented by the day number.
\<close>

definition isoDate :: "date \<Rightarrow> int" where
  "isoDate d = d div msPerDay"

text \<open>
  \<^verbatim>\<open>new Date(y, m, d)\<close> and \<^verbatim>\<open>new Date(y, m, d, 23, 59, 59, 999)\<close> built from the
  local fields of \<open>today\<close>: the first and last millisecond of the local calendar day. The
  offset \<open>tz\<close> (local time minus UTC, in milliseconds) of the server's zone is an input;
  the zone keeps one offset (as UTC and Asia/Seoul do), a zone that changes its offset within
  the day is not covered.
\<close>

definition startOfDay :: "int \<Rightarrow> date \<Rightarrow> date" where
  "startOfDay tz today = ((today + tz) div msPerDay) * msPerDay - tz"

definition endOfDay :: "int \<Rightarrow> date \<Rightarrow> date" where
  "endOfDay tz today = startOfDay tz today + (msPerDay - 1)"

record dailyReward =
  reward_type :: string
  reward_amount :: int
  reward_date :: date

text \<open>
  The coin balance is an integer below \<open>2 ^ 53\<close>, where adding 1 to a Number is exact.
\<close>

record user =
  isPremium :: bool
  coins :: int
  dailyRewards :: "dailyReward list"

record category =
  category_id :: objectId
  category_userId :: objectId
  color :: string

record task =
  task_id :: objectId
  task_userId :: objectId
  task_categoryId :: objectId
  title :: js_string
  description :: js_string
  task_date :: date
  time :: "string option"
  priority :: string
  isRepeating :: bool
  repeatType :: "string option"
  repeatDays :: "nat list"
  repeatEndDate :: "date option"
  hasGrowthAlbum :: bool
  tags :: "string list"
  estimatedMinutes :: "int option"
  task_color :: string
  isCompleted :: bool

record growthAlbum =
  album_id :: objectId
  album_userId :: objectId
  album_taskId :: objectId
  imageUrl :: string
  imagePath :: string
  imageSize :: int
  imageType :: string
  thumbnailUrl :: string
  thumbnailPath :: string
  memo :: string
  album_tags :: "string list"
  mood :: "string option"
  rating :: "int option"

text \<open>The collections the task service reads and writes.\<close>

record db =
  users :: "objectId \<rightharpoonup> user"
  tasks :: "task list"
  categories :: "category list"
  growthAlbums :: "growthAlbum list"

section \<open>taskService.checkDailyTaskCompletion\<close>

text \<open>
  \<^verbatim>\<open>Task.find({ userId, date: { $gte: startOfDay, $lte: endOfDay } })\<close>.
\<close>

definition Task_find_by_date :: "objectId \<Rightarrow> date \<Rightarrow> date \<Rightarrow> db \<Rightarrow> task list" where
  "Task_find_by_date userId lo hi d =
     filter (\<lambda>t. task_userId t = userId \<and> lo \<le> task_date t \<and> task_date t \<le> hi) (tasks d)"

text \<open>
  \<^verbatim>\<open>user.save()\<close>. The User schema is not part of the sources: its validators are the
  parameter \<open>validate\<close>; a document that passes replaces the stored one.
\<close>

definition User_save ::
  "(user \<Rightarrow> js_error option) \<Rightarrow> objectId \<Rightarrow> user \<Rightarrow> db \<Rightarrow> (js_error + unit) \<times> db" where
  "User_save validate userId u d =
     (case validate u of
        Some e \<Rightarrow> (Inl e, d)
      | None \<Rightarrow> (Inr (), d\<lparr>users := (users d)(userId \<mapsto> u)\<rparr>))"

text \<open>
  \<^verbatim>\<open>user.dailyRewards.some(reward => reward.date.toISOString().split('T')[0] === todayString
  && reward.type === 'task_completion')\<close>
\<close>

definition alreadyRewarded :: "date \<Rightarrow> user \<Rightarrow> bool" where
  "alreadyRewarded today u =
     list_ex (\<lambda>reward. isoDate (reward_date reward) = isoDate today
                       \<and> reward_type reward = ''task_completion'')
       (dailyRewards u)"

text \<open>
  The object returned on a mint (its fixed message text is left out); \<^verbatim>\<open>null\<close> is
  \<open>None\<close>.
\<close>

record coinReward =
  rewarded :: bool
  amount :: int
  totalCoins :: int

text \<open>
  The function reads the clock twice: \<open>today\<close> at its start and \<open>now\<close> for the date
  of the pushed reward. The result is the returned value or the thrown error, with the
  database after the call.
\<close>

definition checkDailyTaskCompletion ::
  "(user \<Rightarrow> js_error option) \<Rightarrow> int \<Rightarrow> date \<Rightarrow> date \<Rightarrow> objectId \<Rightarrow> db
     \<Rightarrow> (js_error + coinReward option) \<times> db" where
  "checkDailyTaskCompletion validate tz today now userId d =
     (case users d userId of
        None \<Rightarrow> (Inr None, d)
      | Some u \<Rightarrow>
          if \<not> isPremium u then (Inr None, d)
          else
            let todayTasks = Task_find_by_date userId (startOfDay tz today) (endOfDay tz today) d
            in if length todayTasks = 0 then (Inr None, d)
               else if list_all isCompleted todayTasks then
                 (if \<not> alreadyRewarded today u then
                    let rewardAmount = 1;
                        u' = u\<lparr>coins := coins u + rewardAmount,
                               dailyRewards := dailyRewards u @
                                 [\<lparr>reward_type = ''task_completion'',
                                   reward_amount = rewardAmount, reward_date = now\<rparr>]\<rparr>
                    in (case User_save validate userId u' d of
                          (Inl e, d') \<Rightarrow> (Inl e, d')
                        | (Inr _, d') \<Rightarrow>
                            (Inr (Some \<lparr>rewarded = True, amount = rewardAmount,
                                        totalCoins = coins u'\<rparr>), d'))
                  else (Inr None, d))
               else (Inr None, d))"

section \<open>taskService.createTask and taskService.completeTask\<close>

text \<open>
  \<^verbatim>\<open>String.prototype.trim\<close> removes white space and line terminators at both ends: TAB,
  LF, VT, FF, CR, SPACE, U+00A0, U+1680, U+2000 to U+200A, U+2028, U+2029, U+202F, U+205F,
  U+3000 and U+FEFF.
\<close>

definition isWhitespace :: "nat \<Rightarrow> bool" where
  "isWhitespace c =
     (c \<in> set [0x09, 0x0A, 0x0B, 0x0C, 0x0D, 0x20, 0xA0, 0x1680, 0x2028, 0x2029, 0x202F,
                0x205F, 0x3000, 0xFEFF]
      \<or> (0x2000 \<le> c \<and> c \<le> 0x200A))"

definition trim :: "js_string \<Rightarrow> js_string" where
  "trim s = rev (dropWhile isWhitespace (rev (dropWhile isWhitespace s)))"

text \<open>
  \<^verbatim>\<open>v.trim()\<close> on a value of the request body: a string is trimmed, on every other value
  the call throws a \<^verbatim>\<open>TypeError\<close>.
\<close>

definition defaultTo :: "js_string \<Rightarrow> js_value \<Rightarrow> js_value" where
  \<comment> \<open>a destructuring default: it replaces \<^verbatim>\<open>undefined\<close> and nothing else\<close>
  "defaultTo dflt v = (case v of Undefined \<Rightarrow> Str dflt | _ \<Rightarrow> v)"

definition String_trim :: "js_value \<Rightarrow> js_error + js_string" where
  "String_trim v = (case v of Str s \<Rightarrow> Inr (trim s) | _ \<Rightarrow> Inl TypeError)"

text \<open>
  The request body of \<^verbatim>\<open>createTask\<close>. The title and the description, on which the
  code calls \<^verbatim>\<open>trim\<close>, are any values. Of the other fields, one that the destructuring
  gives a default is optional: \<open>None\<close> is \<^verbatim>\<open>undefined\<close> (for \<open>td_repeatEndDate\<close> any
  falsy value).
\<close>

record taskData =
  td_title :: js_value
  td_description :: js_value
  td_categoryId :: objectId
  td_date :: date
  td_time :: "string option"
  td_priority :: "string option"
  td_isRepeating :: "bool option"
  td_repeatType :: "string option"
  td_repeatDays :: "nat list option"
  td_repeatEndDate :: "date option"
  td_hasGrowthAlbum :: "bool option"
  td_tags :: "string list option"
  td_estimatedMinutes :: "int option"

record growthAlbumData =
  gd_imageUrl :: string
  gd_imagePath :: string
  gd_imageSize :: int
  gd_imageType :: string
  gd_thumbnailUrl :: string
  gd_thumbnailPath :: string
  gd_memo :: "string option"
  gd_tags :: "string list option"
  gd_mood :: "string option"
  gd_rating :: "int option"

record completionData =
  cd_actualMinutes :: "int option"
  cd_growthAlbumData :: "growthAlbumData option"

text \<open>
  The methods and schema validators of the Mongoose models that the two functions call and
  that are not part of the sources are inputs: the validators run by \<^verbatim>\<open>task.save()\<close> and
  \<^verbatim>\<open>growthAlbum.save()\<close>, \<^verbatim>\<open>task.createRepeatingTasks()\<close>,
  \<^verbatim>\<open>category.updateStats()\<close> and \<^verbatim>\<open>task.complete(actualMinutes)\<close>. A method returns
  its document as it leaves it, or the error it throws, and the database as it leaves it.
\<close>

record models =
  Task_validate :: "task \<Rightarrow> js_error option"
  GrowthAlbum_validate :: "growthAlbum \<Rightarrow> js_error option"
  createRepeatingTasks :: "task \<Rightarrow> db \<Rightarrow> (js_error + task) \<times> db"
  updateStats :: "category \<Rightarrow> db \<Rightarrow> (js_error + unit) \<times> db"
  complete :: "int option \<Rightarrow> task \<Rightarrow> db \<Rightarrow> (js_error + task) \<times> db"

text \<open>Saving a document: it replaces the stored document of the same id, or is appended.\<close>

definition upsert :: "('a \<Rightarrow> objectId) \<Rightarrow> 'a \<Rightarrow> 'a list \<Rightarrow> 'a list" where
  "upsert key x xs =
     (if list_ex (\<lambda>y. key y = key x) xs
      then map (\<lambda>y. if key y = key x then x else y) xs
      else xs @ [x])"

definition Task_save :: "models \<Rightarrow> task \<Rightarrow> db \<Rightarrow> (js_error + unit) \<times> db" where
  "Task_save M t d =
     (case Task_validate M t of
        Some e \<Rightarrow> (Inl e, d)
      | None \<Rightarrow> (Inr (), d\<lparr>tasks := upsert task_id t (tasks d)\<rparr>))"

definition GrowthAlbum_save :: "models \<Rightarrow> growthAlbum \<Rightarrow> db \<Rightarrow> (js_error + unit) \<times> db" where
  "GrowthAlbum_save M g d =
     (case GrowthAlbum_validate M g of
        Some e \<Rightarrow> (Inl e, d)
      | None \<Rightarrow> (Inr (), d\<lparr>growthAlbums := upsert album_id g (growthAlbums d)\<rparr>))"

text \<open>\<^verbatim>\<open>Category.findOne({ _id: categoryId, userId })\<close>\<close>

definition Category_findOne :: "objectId \<Rightarrow> objectId \<Rightarrow> db \<Rightarrow> category option" where
  "Category_findOne categoryId userId d =
     find (\<lambda>c. category_id c = categoryId \<and> category_userId c = userId) (categories d)"

text \<open>\<^verbatim>\<open>Task.findOne({ _id: taskId, userId })\<close>\<close>

definition Task_findOne :: "objectId \<Rightarrow> objectId \<Rightarrow> db \<Rightarrow> task option" where
  "Task_findOne taskId userId d =
     find (\<lambda>t. task_id t = taskId \<and> task_userId t = userId) (tasks d)"

text \<open>
  \<open>newId\<close> is the ObjectId that \<^verbatim>\<open>new Task(...)\<close> generates. A new task is not
  completed. The destructuring default of the description, the empty string, replaces
  \<^verbatim>\<open>undefined\<close> only; \<^verbatim>\<open>title.trim()\<close> and \<^verbatim>\<open>description.trim()\<close> are evaluated, in
  this order, after the category lookup and before the task is saved.
\<close>

definition createTask ::
  "models \<Rightarrow> objectId \<Rightarrow> objectId \<Rightarrow> taskData \<Rightarrow> db \<Rightarrow> (js_error + task) \<times> db" where
  "createTask M newId userId taskData d =
     (let isRepeating' = (case td_isRepeating taskData of None \<Rightarrow> False | Some b \<Rightarrow> b);
          repeatEndDate' = td_repeatEndDate taskData
      in case Category_findOne (td_categoryId taskData) userId d of
           None \<Rightarrow> (Inl InvalidCategory, d)
         | Some cat \<Rightarrow>
            (case String_trim (td_title taskData) of
               Inl e \<Rightarrow> (Inl e, d)
             | Inr title' \<Rightarrow>
            (case String_trim (defaultTo [] (td_description taskData)) of
               Inl e \<Rightarrow> (Inl e, d)
             | Inr description' \<Rightarrow>
             let t = \<lparr>task_id = newId,
                      task_userId = userId,
                      task_categoryId = td_categoryId taskData,
                      title = title',
                      description = description',
                      task_date = td_date taskData,
                      time = td_time taskData,
                      priority =
                        (case td_priority taskData of None \<Rightarrow> ''medium'' | Some p \<Rightarrow> p),
                      isRepeating = isRepeating',
                      repeatType = (if isRepeating' then td_repeatType taskData else None),
                      repeatDays =
                        (if isRepeating'
                         then (case td_repeatDays taskData of None \<Rightarrow> [] | Some ds \<Rightarrow> ds)
                         else []),
                      repeatEndDate =
                        (if isRepeating' \<and> repeatEndDate' \<noteq> None then repeatEndDate' else None),
                      hasGrowthAlbum =
                        (case td_hasGrowthAlbum taskData of None \<Rightarrow> False | Some b \<Rightarrow> b),
                      tags = (case td_tags taskData of None \<Rightarrow> [] | Some ts \<Rightarrow> ts),
                      estimatedMinutes = td_estimatedMinutes taskData,
                      task_color = color cat,
                      isCompleted = False\<rparr>
             in (case Task_save M t d of
                   (Inl e, d1) \<Rightarrow> (Inl e, d1)
                 | (Inr _, d1) \<Rightarrow>
                     (case (if isRepeating' \<and> repeatEndDate' \<noteq> None
                            then createRepeatingTasks M t d1 else (Inr t, d1)) of
                        (Inl e, d2) \<Rightarrow> (Inl e, d2)
                      | (Inr t2, d2) \<Rightarrow>
                          (case updateStats M cat d2 of
                             (Inl e, d3) \<Rightarrow> (Inl e, d3)
                           | (Inr _, d3) \<Rightarrow> (Inr t2, d3)))))))"

text \<open>
  The album built from \<^verbatim>\<open>growthAlbumData\<close>; \<^verbatim>\<open>x || dflt\<close> replaces a falsy \<open>x\<close>
  (absent, the empty string, the number 0).
\<close>

definition newGrowthAlbum ::
  "objectId \<Rightarrow> objectId \<Rightarrow> task \<Rightarrow> growthAlbumData \<Rightarrow> growthAlbum" where
  "newGrowthAlbum newId userId t g =
     \<lparr>album_id = newId,
      album_userId = userId,
      album_taskId = task_id t,
      imageUrl = gd_imageUrl g,
      imagePath = gd_imagePath g,
      imageSize = gd_imageSize g,
      imageType = gd_imageType g,
      thumbnailUrl = gd_thumbnailUrl g,
      thumbnailPath = gd_thumbnailPath g,
      memo = (case gd_memo g of None \<Rightarrow> [] | Some m \<Rightarrow> m),
      album_tags = (case gd_tags g of None \<Rightarrow> [] | Some ts \<Rightarrow> ts),
      mood = (case gd_mood g of None \<Rightarrow> None | Some m \<Rightarrow> if m = [] then None else Some m),
      rating = (case gd_rating g of None \<Rightarrow> None | Some r \<Rightarrow> if r = 0 then None else Some r)\<rparr>"

definition completeTask ::
  "models \<Rightarrow> objectId \<Rightarrow> objectId \<Rightarrow> objectId \<Rightarrow> completionData \<Rightarrow> db
     \<Rightarrow> (js_error + task \<times> growthAlbum option) \<times> db" where
  "completeTask M newId userId taskId completionData d =
     (case Task_findOne taskId userId d of
        None \<Rightarrow> (Inl TaskNotFound, d)
      | Some t \<Rightarrow>
          if isCompleted t then (Inl TaskAlreadyCompleted, d)
          else
            (case complete M (cd_actualMinutes completionData) t d of
               (Inl e, d1) \<Rightarrow> (Inl e, d1)
             | (Inr t1, d1) \<Rightarrow>
                 (case (if hasGrowthAlbum t1 then cd_growthAlbumData completionData else None) of
                    None \<Rightarrow> (Inr (t1, None), d1)
                  | Some g \<Rightarrow>
                      let album = newGrowthAlbum newId userId t1 g
                      in (case GrowthAlbum_save M album d1 of
                            (Inl e, d2) \<Rightarrow> (Inl e, d2)
                          | (Inr _, d2) \<Rightarrow> (Inr (t1, Some album), d2)))))"

section \<open>models/CoinTransaction\<close>

datatype tx_status = Pending | Completed | Failed | Cancelled

text \<open>
  The fields of the schema that the model's code reads or that carry a validator. A Number
  is the rational it denotes (finite values; the code compares amounts and never adds them).
  A document in memory has its required fields, and its strings have passed the setters of
  the schema.
\<close>

record coinTransaction =
  tx_id :: objectId
  tx_userId :: objectId
  tx_amount :: rat
  balanceAfter :: rat
  tx_type :: js_string
  tx_description :: js_string
  relatedEntityType :: js_string
  status :: tx_status

definition transactionTypes :: "js_string list" where
  "transactionTypes =
     map utf16
       [''earned_task_completion'', ''earned_pomodoro_completion'',
        ''earned_reminder_completion'', ''earned_daily_login'', ''earned_special_event'',
        ''spent_item_purchase'', ''spent_customization'', ''refund_item_return'',
        ''admin_adjustment'']"

definition entityTypes :: "js_string list" where
  "entityTypes = map utf16 [''task'', ''pomodoro'', ''reminder'', ''shop_item'', ''other'']"

text \<open>
  The validators that the schema declares: \<^verbatim>\<open>balanceAfter: { min: 0 }\<close>, the
  \<^verbatim>\<open>enum\<close> of \<^verbatim>\<open>type\<close> and of \<^verbatim>\<open>relatedEntityType\<close>, and
  \<^verbatim>\<open>description: { required: true, maxlength: 200 }\<close>, where an empty string is not
  accepted as a required one. Mongoose reports their failures in one
  \<^verbatim>\<open>ValidationError\<close>.
\<close>

definition validate_schema :: "coinTransaction \<Rightarrow> js_error option" where
  "validate_schema this =
     (if balanceAfter this < 0 then Some ValidationError
      else if tx_type this \<in> set transactionTypes then
        (if tx_description this = [] then Some ValidationError
         else if length (tx_description this) > 200 then Some ValidationError
         else if relatedEntityType this \<in> set entityTypes then None
         else Some ValidationError)
      else Some ValidationError)"

text \<open>
  \<^verbatim>\<open>coinTransactionSchema.pre('save', ...)\<close>: \<open>Some e\<close> is \<^verbatim>\<open>next(e)\<close>, \<open>None\<close> is
  \<^verbatim>\<open>next()\<close>.
\<close>

definition pre_save :: "coinTransaction \<Rightarrow> js_error option" where
  "pre_save this =
     (if balanceAfter this < 0 then Some InsufficientBalance
      else if tx_amount this = 0 then Some ZeroAmount
      else None)"

text \<open>
  \<^verbatim>\<open>this.save()\<close>: Mongoose validates the document against the schema first, then runs
  the pre-save hook, and stores a document that passes both. The result carries the document
  in memory and the collection.
\<close>

definition CoinTransaction_save ::
  "coinTransaction \<Rightarrow> coinTransaction list
     \<Rightarrow> (js_error + unit) \<times> coinTransaction \<times> coinTransaction list" where
  "CoinTransaction_save this store =
     (case validate_schema this of
        Some e \<Rightarrow> (Inl e, this, store)
      | None \<Rightarrow>
          (case pre_save this of
             Some e \<Rightarrow> (Inl e, this, store)
           | None \<Rightarrow> (Inr (), this, upsert tx_id this store)))"

text \<open>The three Hangul syllables of the label "cancelled".\<close>

definition cancelledLabel :: js_string where
  "cancelledLabel = [0xCDE8, 0xC18C, 0xB428]"

text \<open>
  The assignment to \<^verbatim>\<open>this.description\<close> passes the setter \<^verbatim>\<open>trim: true\<close> of the
  schema.
\<close>

definition cancel ::
  "js_string \<Rightarrow> coinTransaction \<Rightarrow> coinTransaction list
     \<Rightarrow> (js_error + unit) \<times> coinTransaction \<times> coinTransaction list" where
  "cancel reason this store =
     (if status this \<noteq> Pending then (Inl CannotCancel, this, store)
      else CoinTransaction_save
             (this\<lparr>status := Cancelled,
                   tx_description :=
                     trim (tx_description this @ utf16 '' ('' @ cancelledLabel @ utf16 '': ''
                             @ reason @ utf16 '')'')\<rparr>)
             store)"

definition complete_tx ::
  "coinTransaction \<Rightarrow> coinTransaction list
     \<Rightarrow> (js_error + unit) \<times> coinTransaction \<times> coinTransaction list" where
  "complete_tx this store =
     (if status this \<noteq> Pending then (Inl AlreadyProcessed, this, store)
      else CoinTransaction_save (this\<lparr>status := Completed\<rparr>) store)"




section \<open>analysisService.getWeeklyStats: the best day\<close>

text \<open>
  An entry of \<^verbatim>\<open>weeklyData\<close>; only its \<^verbatim>\<open>minutes\<close> field is read, the others are
  the extension of the record.
\<close>

record dayData =
  minutes :: int

text \<open>
  \<^verbatim>\<open>weeklyData.reduce((best, current) => current.minutes > best.minutes ? current : best,
  weeklyData[0])\<close>. On the empty array the initial value \<^verbatim>\<open>undefined\<close> is returned.
\<close>

definition bestDay :: "'a dayData_scheme list \<Rightarrow> 'a dayData_scheme option" where
  "bestDay weeklyData =
     (case weeklyData of
        [] \<Rightarrow> None
      | w0 # _ \<Rightarrow>
          Some (foldl (\<lambda>best current. if minutes current > minutes best then current else best)
                  w0 weeklyData))"


section \<open>Example documents and collections\<close>

text \<open>
  Concrete inputs on which the functions are run: a premium user 1 and a free user 2, one
  category of user 1, and tasks given by id, owner, date and completion flag.
\<close>

definition noValidation :: "'a \<Rightarrow> js_error option" where
  "noValidation x = None"

definition premiumUser :: user where
  "premiumUser = \<lparr>isPremium = True, coins = 5, dailyRewards = []\<rparr>"

definition freeUser :: user where
  "freeUser = \<lparr>isPremium = False, coins = 5, dailyRewards = []\<rparr>"

definition exampleTask :: "objectId \<Rightarrow> objectId \<Rightarrow> date \<Rightarrow> bool \<Rightarrow> task" where
  "exampleTask taskId userId day done =
     \<lparr>task_id = taskId, task_userId = userId, task_categoryId = 1, title = utf16 ''read'',
      description = [], task_date = day, time = None, priority = ''medium'',
      isRepeating = False, repeatType = None, repeatDays = [], repeatEndDate = None,
      hasGrowthAlbum = False, tags = [], estimatedMinutes = None, task_color = ''#fff'',
      isCompleted = done\<rparr>"

definition exampleDb :: "task list \<Rightarrow> db" where
  "exampleDb ts =
     \<lparr>users = [1 \<mapsto> premiumUser, 2 \<mapsto> freeUser], tasks = ts,
      categories = [\<lparr>category_id = 1, category_userId = 1, color = ''#fff''\<rparr>],
      growthAlbums = []\<rparr>"

text \<open>
  The user and the database after the reward of the day has been paid at time 200.
\<close>

definition rewardedUser :: user where
  "rewardedUser =
     \<lparr>isPremium = True, coins = 6,
      dailyRewards =
        [\<lparr>reward_type = ''task_completion'', reward_amount = 1, reward_date = 200\<rparr>]\<rparr>"

definition mintedDb :: db where
  "mintedDb =
     (exampleDb [exampleTask 10 1 50 True])
       \<lparr>users := (users (exampleDb [exampleTask 10 1 50 True]))(1 \<mapsto> rewardedUser)\<rparr>"

text \<open>
  Example values for the model methods that are inputs: validators that accept every
  document, an expansion and a statistics update that change nothing, and a completion that
  sets the flag and stores the task.
\<close>

definition exampleModels :: models where
  "exampleModels =
     \<lparr>Task_validate = (\<lambda>t. None),
      GrowthAlbum_validate = (\<lambda>g. None),
      createRepeatingTasks = (\<lambda>t d. (Inr t, d)),
      updateStats = (\<lambda>c d. (Inr (), d)),
      complete = (\<lambda>actualMinutes t d.
        (Inr (t\<lparr>isCompleted := True\<rparr>),
         d\<lparr>tasks := upsert task_id (t\<lparr>isCompleted := True\<rparr>) (tasks d)\<rparr>))\<rparr>"

text \<open>
  A request for a daily repeating task without an end date, and the task it creates.
\<close>

definition repeatingNoEnd :: taskData where
  "repeatingNoEnd =
     \<lparr>td_title = Str (utf16 '' run ''), td_description = Undefined, td_categoryId = 1, td_date = 50,
      td_time = None, td_priority = None, td_isRepeating = Some True,
      td_repeatType = Some ''daily'', td_repeatDays = None, td_repeatEndDate = None,
      td_hasGrowthAlbum = None, td_tags = None, td_estimatedMinutes = None\<rparr>"

definition savedRepeatingTask :: task where
  "savedRepeatingTask =
     \<lparr>task_id = 20, task_userId = 1, task_categoryId = 1, title = utf16 ''run'',
      description = [], task_date = 50, time = None, priority = ''medium'',
      isRepeating = True, repeatType = Some ''daily'', repeatDays = [], repeatEndDate = None,
      hasGrowthAlbum = False, tags = [], estimatedMinutes = None, task_color = ''#fff'',
      isCompleted = False\<rparr>"

text \<open>
  A request whose description is \<^verbatim>\<open>null\<close>.
\<close>

definition nullDescription :: taskData where
  "nullDescription = repeatingNoEnd\<lparr>td_description := Null\<rparr>"

text \<open>
  A coin transaction given by id, amount, balance after it and status.
\<close>

definition exampleTx :: "objectId \<Rightarrow> rat \<Rightarrow> rat \<Rightarrow> tx_status \<Rightarrow> coinTransaction" where
  "exampleTx i a b st =
     \<lparr>tx_id = i, tx_userId = 1, tx_amount = a, balanceAfter = b,
      tx_type = utf16 ''earned_task_completion'', tx_description = utf16 ''daily'',
      relatedEntityType = utf16 ''other'', status = st\<rparr>"

text \<open>
  A server at UTC+9 (Asia/Seoul) on 2 January 2025: 08:00 and 09:30 local time are
  1 January 23:00 and 2 January 00:30 in UTC. User 1 has one task, completed, dated at the
  local midnight of that day.
\<close>

definition kst :: int where
  "kst = 32400000"

definition jan2_0800_kst :: date where
  "jan2_0800_kst = 1735772400000"

definition jan2_0930_kst :: date where
  "jan2_0930_kst = 1735777800000"

definition seoulDb :: db where
  "seoulDb = exampleDb [exampleTask 10 1 1735743600000 True]"

definition seoulRewards :: "dailyReward list" where
  "seoulRewards =
     [\<lparr>reward_type = ''task_completion'', reward_amount = 1, reward_date = jan2_0800_kst\<rparr>,
      \<lparr>reward_type = ''task_completion'', reward_amount = 1, reward_date = jan2_0930_kst\<rparr>]"

text \<open>
  A week of buckets with a label; Tuesday and Wednesday tie for the maximum.
\<close>

record weekdayData = dayData +
  weekday :: string

definition exampleWeek :: "weekdayData list" where
  "exampleWeek =
     [\<lparr>minutes = 10, weekday = ''mon''\<rparr>, \<lparr>minutes = 30, weekday = ''tue''\<rparr>,
      \<lparr>minutes = 30, weekday = ''wed''\<rparr>, \<lparr>minutes = 5, weekday = ''thu''\<rparr>]"

lemmas example_defs =
  noValidation_def premiumUser_def freeUser_def exampleTask_def exampleDb_def
  rewardedUser_def mintedDb_def exampleModels_def repeatingNoEnd_def exampleTx_def
  exampleWeek_def nullDescription_def kst_def jan2_0800_kst_def jan2_0930_kst_def seoulDb_def
  seoulRewards_def

lemmas date_defs =
  Task_find_by_date_def startOfDay_def endOfDay_def msPerDay_def isoDate_def
  alreadyRewarded_def

section \<open>The daily-completion gate\<close>

text \<open>
  The function as one chain of tests, with \<open>User_save\<close> unfolded.
\<close>

lemma gate_unfold:
  "checkDailyTaskCompletion validate tz today now userId d =
     (case users d userId of
        None \<Rightarrow> (Inr None, d)
      | Some u \<Rightarrow>
          if \<not> isPremium u then (Inr None, d)
          else if Task_find_by_date userId (startOfDay tz today) (endOfDay tz today) d = []
          then (Inr None, d)
          else if list_all isCompleted
                    (Task_find_by_date userId (startOfDay tz today) (endOfDay tz today) d)
                  \<and> \<not> alreadyRewarded today u
          then (case validate (u\<lparr>coins := coins u + 1,
                            dailyRewards := dailyRewards u @
                              [\<lparr>reward_type = ''task_completion'', reward_amount = 1,
                                reward_date = now\<rparr>]\<rparr>) of
                  Some e \<Rightarrow> (Inl e, d)
                | None \<Rightarrow>
                    (Inr (Some \<lparr>rewarded = True, amount = 1, totalCoins = coins u + 1\<rparr>),
                     d\<lparr>users := (users d)(userId \<mapsto>
                          u\<lparr>coins := coins u + 1,
                            dailyRewards := dailyRewards u @
                              [\<lparr>reward_type = ''task_completion'', reward_amount = 1,
                                reward_date = now\<rparr>]\<rparr>)\<rparr>))
          else (Inr None, d))"
  by (simp add: checkDailyTaskCompletion_def User_save_def Let_def
      split: option.splits)

lemma gate_already_rewarded:
  assumes "users d userId = Some u" and "alreadyRewarded today u"
  shows "checkDailyTaskCompletion validate tz today now userId d = (Inr None, d)"
  using assms by (simp add: gate_unfold)

lemma gate_mint_inv:
  assumes "checkDailyTaskCompletion validate tz today now userId d = (Inr (Some r), d1)"
  shows "\<exists>u. users d userId = Some u \<and> isPremium u \<and> \<not> alreadyRewarded today u \<and>
           Task_find_by_date userId (startOfDay tz today) (endOfDay tz today) d \<noteq> [] \<and>
           list_all isCompleted
             (Task_find_by_date userId (startOfDay tz today) (endOfDay tz today) d) \<and>
           r = \<lparr>rewarded = True, amount = 1, totalCoins = coins u + 1\<rparr> \<and>
           d1 = d\<lparr>users := (users d)(userId \<mapsto>
                  u\<lparr>coins := coins u + 1,
                    dailyRewards := dailyRewards u @
                      [\<lparr>reward_type = ''task_completion'', reward_amount = 1,
                        reward_date = now\<rparr>]\<rparr>)\<rparr>"
  using assms by (auto simp add: gate_unfold split: option.splits if_splits)

lemma alreadyRewarded_after_mint:
  assumes "isoDate t2 = isoDate now"
  shows "alreadyRewarded t2
           (u\<lparr>coins := c,
              dailyRewards := dailyRewards u @
                [\<lparr>reward_type = ''task_completion'', reward_amount = a, reward_date = now\<rparr>]\<rparr>)"
  using assms by (simp add: alreadyRewarded_def list_ex_iff)

text \<open>
  Two calls that start on the same UTC date, the second after the first has read the clock
  for the reward: the reward is dated on that date too.
\<close>

lemma isoDate_between:
  assumes "today \<le> now" and "now \<le> today'" and "isoDate today' = isoDate today"
  shows "isoDate today' = isoDate now"
proof -
  from assms(1) have "isoDate today \<le> isoDate now"
    by (simp add: isoDate_def msPerDay_def zdiv_mono1)
  moreover from assms(2) have "isoDate now \<le> isoDate today'"
    by (simp add: isoDate_def msPerDay_def zdiv_mono1)
  ultimately show ?thesis
    using assms(3) by simp
qed

lemma example_mint:
  "checkDailyTaskCompletion noValidation 0 100 200 1 (exampleDb [exampleTask 10 1 50 True]) =
     (Inr (Some \<lparr>rewarded = True, amount = 1, totalCoins = 6\<rparr>), mintedDb)"
  by (simp add: gate_unfold example_defs date_defs)

text \<open>
  The reward is paid once per UTC date. When a reward of type \<^verbatim>\<open>task_completion\<close> is
  already recorded on the UTC date of the call, the gate returns \<^verbatim>\<open>null\<close> and leaves
  the database as it is. So of two calls in sequence, where the first one pays and the second
  one starts on the UTC date of the recorded reward, the first appends exactly one reward
  entry dated \<open>now\<close>, adds exactly 1 coin and returns the new balance, and the second
  returns \<^verbatim>\<open>null\<close> and changes nothing.
\<close>

lemma gate_pays_once_per_utc_date:
  "(\<forall>u. users d userId = Some u \<and> alreadyRewarded today u \<longrightarrow>
        checkDailyTaskCompletion validate tz today now userId d = (Inr None, d)) \<and>
   (\<forall>r d1. checkDailyTaskCompletion validate tz today now userId d = (Inr (Some r), d1) \<and>
        isoDate today' = isoDate now \<longrightarrow>
        (\<exists>u u1. users d userId = Some u \<and>
           d1 = d\<lparr>users := (users d)(userId \<mapsto> u1)\<rparr> \<and>
           coins u1 = coins u + 1 \<and>
           dailyRewards u1 = dailyRewards u @
             [\<lparr>reward_type = ''task_completion'', reward_amount = 1, reward_date = now\<rparr>] \<and>
           r = \<lparr>rewarded = True, amount = 1, totalCoins = coins u1\<rparr> \<and>
           checkDailyTaskCompletion validate' tz' today' now' userId d1 = (Inr None, d1)))"
proof -
  have recorded: "checkDailyTaskCompletion validate tz today now userId d = (Inr None, d)"
    if "users d userId = Some u \<and> alreadyRewarded today u" for u
    using that by (simp add: gate_already_rewarded)
  have twice: "\<exists>u u1. users d userId = Some u \<and>
           d1 = d\<lparr>users := (users d)(userId \<mapsto> u1)\<rparr> \<and>
           coins u1 = coins u + 1 \<and>
           dailyRewards u1 = dailyRewards u @
             [\<lparr>reward_type = ''task_completion'', reward_amount = 1, reward_date = now\<rparr>] \<and>
           r = \<lparr>rewarded = True, amount = 1, totalCoins = coins u1\<rparr> \<and>
           checkDailyTaskCompletion validate' tz' today' now' userId d1 = (Inr None, d1)"
    if h: "checkDailyTaskCompletion validate tz today now userId d = (Inr (Some r), d1) \<and>
           isoDate today' = isoDate now" for r d1
  proof -
    from h gate_mint_inv [of validate tz today now userId d r d1]
    obtain u where u: "users d userId = Some u"
      and r: "r = \<lparr>rewarded = True, amount = 1, totalCoins = coins u + 1\<rparr>"
      and d1: "d1 = d\<lparr>users := (users d)(userId \<mapsto>
                    u\<lparr>coins := coins u + 1,
                      dailyRewards := dailyRewards u @
                        [\<lparr>reward_type = ''task_completion'', reward_amount = 1,
                          reward_date = now\<rparr>]\<rparr>)\<rparr>"
      by blast
    let ?u1 = "u\<lparr>coins := coins u + 1,
                  dailyRewards := dailyRewards u @
                    [\<lparr>reward_type = ''task_completion'', reward_amount = 1,
                      reward_date = now\<rparr>]\<rparr>"
    have u1: "d1 = d\<lparr>users := (users d)(userId \<mapsto> ?u1)\<rparr>" "users d1 userId = Some ?u1"
      by (simp_all add: d1)
    have "alreadyRewarded today' ?u1"
      using h by (simp add: alreadyRewarded_after_mint)
    with u1(2) have "checkDailyTaskCompletion validate' tz' today' now' userId d1 = (Inr None, d1)"
      by (rule gate_already_rewarded)
    with u u1(1) r show ?thesis
      by (intro exI [of _ u] exI [of _ ?u1]) simp
  qed
  from recorded twice show ?thesis
    by blast
qed

text \<open>
  Claim C1 says that a second call on the same day pays nothing: two calls in sequence give
  one reward entry and one increment. The day of the function is the local calendar day of
  the server, whose tasks it reads; the day of a recorded reward is compared as a UTC date.
  On a server at UTC+9, two calls at 08:00 and at 09:30 of the same local day, with the same
  completed task due, are on two UTC dates: both pay, and the user ends with two reward
  entries and two coins more.
\<close>

theorem double_mint_same_local_day:
  "startOfDay kst jan2_0800_kst = startOfDay kst jan2_0930_kst \<and>
   endOfDay kst jan2_0800_kst = endOfDay kst jan2_0930_kst \<and>
   Task_find_by_date 1 (startOfDay kst jan2_0930_kst) (endOfDay kst jan2_0930_kst) seoulDb =
     [exampleTask 10 1 1735743600000 True] \<and>
   checkDailyTaskCompletion noValidation kst jan2_0800_kst jan2_0800_kst 1 seoulDb =
     (Inr (Some \<lparr>rewarded = True, amount = 1, totalCoins = 6\<rparr>),
      seoulDb\<lparr>users := (users seoulDb)(1 \<mapsto>
        \<lparr>isPremium = True, coins = 6, dailyRewards = [hd seoulRewards]\<rparr>)\<rparr>) \<and>
   checkDailyTaskCompletion noValidation kst jan2_0930_kst jan2_0930_kst 1
       (seoulDb\<lparr>users := (users seoulDb)(1 \<mapsto>
          \<lparr>isPremium = True, coins = 6, dailyRewards = [hd seoulRewards]\<rparr>)\<rparr>) =
     (Inr (Some \<lparr>rewarded = True, amount = 1, totalCoins = 7\<rparr>),
      seoulDb\<lparr>users := (users seoulDb)(1 \<mapsto>
        \<lparr>isPremium = True, coins = 7, dailyRewards = seoulRewards\<rparr>)\<rparr>)"
  by (simp add: gate_unfold example_defs date_defs)

text \<open>
  Claim C2. When one of the user's tasks of the day is not completed, the gate returns
  \<^verbatim>\<open>null\<close> and leaves the database (reward entries and balance) as it is; and whenever the
  gate pays, the tasks of the day are not empty and every one of them is completed.
\<close>

theorem gate_blocked_by_incomplete:
  "((\<exists>t \<in> set (Task_find_by_date userId (startOfDay tz today) (endOfDay tz today) d).
        \<not> isCompleted t) \<longrightarrow>
      checkDailyTaskCompletion validate tz today now userId d = (Inr None, d)) \<and>
   (\<forall>r d1. checkDailyTaskCompletion validate tz today now userId d = (Inr (Some r), d1) \<longrightarrow>
      Task_find_by_date userId (startOfDay tz today) (endOfDay tz today) d \<noteq> [] \<and>
      (\<forall>t \<in> set (Task_find_by_date userId (startOfDay tz today) (endOfDay tz today) d).
         isCompleted t))"
proof -
  let ?todayTasks = "Task_find_by_date userId (startOfDay tz today) (endOfDay tz today) d"
  have blocked: "checkDailyTaskCompletion validate tz today now userId d = (Inr None, d)"
    if "\<exists>t \<in> set ?todayTasks. \<not> isCompleted t"
  proof -
    from that have "\<not> list_all isCompleted ?todayTasks"
      by (simp add: list_all_iff)
    then show ?thesis
      by (simp add: gate_unfold split: option.splits)
  qed
  have passes: "?todayTasks \<noteq> [] \<and> (\<forall>t \<in> set ?todayTasks. isCompleted t)"
    if "checkDailyTaskCompletion validate tz today now userId d = (Inr (Some r), d1)" for r d1
    using gate_mint_inv [OF that] by (auto simp add: list_all_iff)
  from blocked passes show ?thesis
    by blast
qed

theorem gate_blocked_by_incomplete_witness:
  "Task_find_by_date 1 (startOfDay 0 100) (endOfDay 0 100)
       (exampleDb [exampleTask 10 1 50 True, exampleTask 11 1 60 False]) =
     [exampleTask 10 1 50 True, exampleTask 11 1 60 False] \<and>
   \<not> isCompleted (exampleTask 11 1 60 False) \<and>
   checkDailyTaskCompletion noValidation 0 100 200 1
       (exampleDb [exampleTask 10 1 50 True, exampleTask 11 1 60 False]) =
     (Inr None, exampleDb [exampleTask 10 1 50 True, exampleTask 11 1 60 False]) \<and>
   checkDailyTaskCompletion noValidation 0 100 200 1 (exampleDb [exampleTask 10 1 50 True]) =
     (Inr (Some \<lparr>rewarded = True, amount = 1, totalCoins = 6\<rparr>), mintedDb) \<and>
   Task_find_by_date 1 (startOfDay 0 100) (endOfDay 0 100)
       (exampleDb [exampleTask 10 1 50 True]) \<noteq> [] \<and>
   list_all isCompleted
     (Task_find_by_date 1 (startOfDay 0 100) (endOfDay 0 100)
        (exampleDb [exampleTask 10 1 50 True]))"
proof -
  let ?d = "exampleDb [exampleTask 10 1 50 True, exampleTask 11 1 60 False]"
  have due: "Task_find_by_date 1 (startOfDay 0 100) (endOfDay 0 100) ?d =
      [exampleTask 10 1 50 True, exampleTask 11 1 60 False] \<and>
      \<not> isCompleted (exampleTask 11 1 60 False)"
    by (simp add: example_defs date_defs)
  then have incomplete:
    "\<exists>t \<in> set (Task_find_by_date 1 (startOfDay 0 100) (endOfDay 0 100) ?d). \<not> isCompleted t"
    by simp
  from gate_blocked_by_incomplete [where d = ?d and userId = 1 and tz = 0 and today = 100
      and validate = noValidation and now = 200] incomplete
  have blocked: "checkDailyTaskCompletion noValidation 0 100 200 1 ?d = (Inr None, ?d)"
    by blast
  from gate_blocked_by_incomplete [where d = "exampleDb [exampleTask 10 1 50 True]"
      and userId = 1 and tz = 0 and today = 100 and validate = noValidation and now = 200]
    example_mint
  have passed: "Task_find_by_date 1 (startOfDay 0 100) (endOfDay 0 100)
       (exampleDb [exampleTask 10 1 50 True]) \<noteq> [] \<and>
     list_all isCompleted
       (Task_find_by_date 1 (startOfDay 0 100) (endOfDay 0 100)
          (exampleDb [exampleTask 10 1 50 True]))"
    unfolding list_all_iff by blast
  from due blocked example_mint passed show ?thesis
    by blast
qed

text \<open>
  Claim C3. When the user has no task on the day, the gate returns \<^verbatim>\<open>null\<close>, throws
  nothing and leaves the database as it is: an empty day is not a completed day.
\<close>

theorem gate_empty_day:
  assumes "Task_find_by_date userId (startOfDay tz today) (endOfDay tz today) d = []"
  shows "checkDailyTaskCompletion validate tz today now userId d = (Inr None, d)"
  using assms by (simp add: gate_unfold split: option.splits)

theorem gate_empty_day_witness:
  "Task_find_by_date 1 (startOfDay 0 100) (endOfDay 0 100)
       (exampleDb [exampleTask 10 1 86400000 True]) = [] \<and>
   checkDailyTaskCompletion noValidation 0 100 200 1 (exampleDb [exampleTask 10 1 86400000 True]) =
     (Inr None, exampleDb [exampleTask 10 1 86400000 True])"
proof -
  have empty: "Task_find_by_date 1 (startOfDay 0 100) (endOfDay 0 100)
       (exampleDb [exampleTask 10 1 86400000 True]) = []"
    by (simp add: example_defs date_defs)
  from empty gate_empty_day [OF empty, of noValidation 200] show ?thesis
    by simp
qed

text \<open>
  Claim C5 says that the gate fails with an error when the user id does not resolve. It
  does not: for the unknown user 9 the call returns, it does not throw.
\<close>

theorem gate_unknown_user_counterexample:
  "users (exampleDb [exampleTask 10 9 50 True]) 9 = None \<and>
   \<not> isl (fst (checkDailyTaskCompletion noValidation 0 100 200 9
                 (exampleDb [exampleTask 10 9 50 True])))"
  by (simp add: gate_unfold example_defs)

text \<open>
  Claim C5, amended. When the user id does not resolve to a user, the gate returns
  \<^verbatim>\<open>null\<close>, throws no error and leaves the database as it is.
\<close>

theorem gate_unknown_user_returns_null:
  assumes "users d userId = None"
  shows "checkDailyTaskCompletion validate tz today now userId d = (Inr None, d)"
  using assms by (simp add: gate_unfold)

theorem gate_unknown_user_returns_null_witness:
  "users (exampleDb [exampleTask 10 9 50 True]) 9 = None \<and>
   checkDailyTaskCompletion noValidation 0 100 200 9 (exampleDb [exampleTask 10 9 50 True]) =
     (Inr None, exampleDb [exampleTask 10 9 50 True])"
proof -
  have unknown: "users (exampleDb [exampleTask 10 9 50 True]) 9 = None"
    by (simp add: example_defs)
  from unknown gate_unknown_user_returns_null [OF unknown, of noValidation 0 100 200]
  show ?thesis by simp
qed

text \<open>
  Claim C9. For a user that does not exist or whose \<^verbatim>\<open>isPremium\<close> flag is false the
  gate returns \<^verbatim>\<open>null\<close> and leaves the database as it is, whatever the tasks of the day
  are, also when all of them are completed.
\<close>

theorem gate_free_user_no_reward:
  assumes "users d userId = None \<or> (\<exists>u. users d userId = Some u \<and> \<not> isPremium u)"
  shows "checkDailyTaskCompletion validate tz today now userId d = (Inr None, d)"
  using assms by (auto simp add: gate_unfold)

theorem gate_free_user_no_reward_witness:
  "users (exampleDb [exampleTask 12 2 50 True]) 2 = Some freeUser \<and>
   \<not> isPremium freeUser \<and>
   Task_find_by_date 2 (startOfDay 0 100) (endOfDay 0 100) (exampleDb [exampleTask 12 2 50 True])
     = [exampleTask 12 2 50 True] \<and>
   isCompleted (exampleTask 12 2 50 True) \<and>
   checkDailyTaskCompletion noValidation 0 100 200 2 (exampleDb [exampleTask 12 2 50 True]) =
     (Inr None, exampleDb [exampleTask 12 2 50 True])"
proof -
  have free: "users (exampleDb [exampleTask 12 2 50 True]) 2 = Some freeUser \<and>
      \<not> isPremium freeUser"
    by (simp add: example_defs)
  then have hyp: "users (exampleDb [exampleTask 12 2 50 True]) 2 = None \<or>
      (\<exists>u. users (exampleDb [exampleTask 12 2 50 True]) 2 = Some u \<and> \<not> isPremium u)"
    by blast
  have due: "Task_find_by_date 2 (startOfDay 0 100) (endOfDay 0 100)
      (exampleDb [exampleTask 12 2 50 True]) = [exampleTask 12 2 50 True] \<and>
      isCompleted (exampleTask 12 2 50 True)"
    by (simp add: example_defs date_defs)
  from free due gate_free_user_no_reward [OF hyp, of noValidation 0 100 200]
  show ?thesis by simp
qed

section \<open>Creating and completing tasks\<close>

text \<open>
  Claim C4 says that creating a repeating task without an end date fails with a recurrence
  error before anything is stored. It does not: with validators that accept the document,
  the request for a daily task without an end date returns the task, and the task is stored.
\<close>

theorem createTask_missing_end_date_counterexample:
  "td_isRepeating repeatingNoEnd = Some True \<and>
   td_repeatType repeatingNoEnd = Some ''daily'' \<and>
   td_repeatEndDate repeatingNoEnd = None \<and>
   createTask exampleModels 20 1 repeatingNoEnd (exampleDb []) =
     (Inr savedRepeatingTask, exampleDb [savedRepeatingTask]) \<and>
   tasks (exampleDb [savedRepeatingTask]) = [savedRepeatingTask]"
  by (simp add: createTask_def Task_save_def Category_findOne_def upsert_def String_trim_def
      defaultTo_def trim_def isWhitespace_def utf16_def Let_def example_defs
      savedRepeatingTask_def)

text \<open>
  A title or a description that is not a string makes the call throw before the task is
  saved: here the description is \<^verbatim>\<open>null\<close>.
\<close>

lemma createTask_null_description:
  "createTask exampleModels 20 1 nullDescription (exampleDb []) = (Inl TypeError, exampleDb [])"
  by (simp add: createTask_def Category_findOne_def String_trim_def defaultTo_def Let_def
      example_defs)

text \<open>
  Claim C4, amended. The check that \<^verbatim>\<open>createTask\<close> makes itself is the category lookup:
  when the category is not one of the user's, the call fails with the invalid-category
  error and the database is as it was. A repeating task without an end date is not rejected
  by \<^verbatim>\<open>createTask\<close>: when the category is found, the title is a string and the
  description is a string or absent, the task is built with \<^verbatim>\<open>isRepeating\<close> set and no
  end date and is saved, and no repeating instances are generated; the call then returns the
  task, unless the validators of the Task schema reject it (nothing is stored) or the
  statistics update that runs after the task is stored fails.
\<close>

theorem createTask_repeating_without_end:
  "(Category_findOne (td_categoryId taskData) userId d = None \<longrightarrow>
      createTask M newId userId taskData d = (Inl InvalidCategory, d)) \<and>
   (\<forall>cat ttl dsc. Category_findOne (td_categoryId taskData) userId d = Some cat \<and>
      td_isRepeating taskData = Some True \<and> td_repeatEndDate taskData = None \<and>
      td_title taskData = Str ttl \<and> defaultTo [] (td_description taskData) = Str dsc \<longrightarrow>
      (\<exists>t. task_id t = newId \<and> task_userId t = userId \<and>
         title t = trim ttl \<and> description t = trim dsc \<and> isRepeating t \<and>
         repeatType t = td_repeatType taskData \<and> repeatEndDate t = None \<and>
         createTask M newId userId taskData d =
           (case Task_validate M t of
              Some e \<Rightarrow> (Inl e, d)
            | None \<Rightarrow>
                (case updateStats M cat (d\<lparr>tasks := upsert task_id t (tasks d)\<rparr>) of
                   (Inl e, d3) \<Rightarrow> (Inl e, d3)
                 | (Inr _, d3) \<Rightarrow> (Inr t, d3)))))"
proof -
  have invalid: "createTask M newId userId taskData d = (Inl InvalidCategory, d)"
    if "Category_findOne (td_categoryId taskData) userId d = None"
    using that by (simp add: createTask_def Let_def)
  have saved: "\<exists>t. task_id t = newId \<and> task_userId t = userId \<and>
         title t = trim ttl \<and> description t = trim dsc \<and> isRepeating t \<and>
         repeatType t = td_repeatType taskData \<and> repeatEndDate t = None \<and>
         createTask M newId userId taskData d =
           (case Task_validate M t of
              Some e \<Rightarrow> (Inl e, d)
            | None \<Rightarrow>
                (case updateStats M cat (d\<lparr>tasks := upsert task_id t (tasks d)\<rparr>) of
                   (Inl e, d3) \<Rightarrow> (Inl e, d3)
                 | (Inr _, d3) \<Rightarrow> (Inr t, d3)))"
    if h: "Category_findOne (td_categoryId taskData) userId d = Some cat \<and>
      td_isRepeating taskData = Some True \<and> td_repeatEndDate taskData = None \<and>
      td_title taskData = Str ttl \<and> defaultTo [] (td_description taskData) = Str dsc"
    for cat ttl dsc
  proof -
    let ?t = "\<lparr>task_id = newId,
               task_userId = userId,
               task_categoryId = td_categoryId taskData,
               title = trim ttl,
               description = trim dsc,
               task_date = td_date taskData,
               time = td_time taskData,
               priority = (case td_priority taskData of None \<Rightarrow> ''medium'' | Some p \<Rightarrow> p),
               isRepeating = True,
               repeatType = td_repeatType taskData,
               repeatDays = (case td_repeatDays taskData of None \<Rightarrow> [] | Some ds \<Rightarrow> ds),
               repeatEndDate = None,
               hasGrowthAlbum = (case td_hasGrowthAlbum taskData of None \<Rightarrow> False | Some b \<Rightarrow> b),
               tags = (case td_tags taskData of None \<Rightarrow> [] | Some ts \<Rightarrow> ts),
               estimatedMinutes = td_estimatedMinutes taskData,
               task_color = color cat,
               isCompleted = False\<rparr>"
    from h have run: "createTask M newId userId taskData d =
           (case Task_validate M ?t of
              Some e \<Rightarrow> (Inl e, d)
            | None \<Rightarrow>
                (case updateStats M cat (d\<lparr>tasks := upsert task_id ?t (tasks d)\<rparr>) of
                   (Inl e, d3) \<Rightarrow> (Inl e, d3)
                 | (Inr _, d3) \<Rightarrow> (Inr ?t, d3)))"
      by (simp add: createTask_def Task_save_def String_trim_def Let_def
          split: option.splits prod.splits sum.splits)
    show ?thesis
      by (rule exI [of _ ?t]) (simp add: run)
  qed
  from invalid saved show ?thesis
    by blast
qed

theorem createTask_repeating_without_end_witness:
  "Category_findOne (td_categoryId repeatingNoEnd) 2 (exampleDb []) = None \<and>
   createTask exampleModels 20 2 repeatingNoEnd (exampleDb []) =
     (Inl InvalidCategory, exampleDb []) \<and>
   Category_findOne (td_categoryId repeatingNoEnd) 1 (exampleDb []) =
     Some \<lparr>category_id = 1, category_userId = 1, color = ''#fff''\<rparr> \<and>
   td_isRepeating repeatingNoEnd = Some True \<and> td_repeatEndDate repeatingNoEnd = None \<and>
   td_title repeatingNoEnd = Str (utf16 '' run '') \<and>
   defaultTo [] (td_description repeatingNoEnd) = Str [] \<and>
   (\<exists>t. task_id t = 20 \<and> title t = trim (utf16 '' run '') \<and> isRepeating t \<and>
      repeatEndDate t = None \<and>
      createTask exampleModels 20 1 repeatingNoEnd (exampleDb []) = (Inr t, exampleDb [t]))"
proof -
  let ?cat = "\<lparr>category_id = 1, category_userId = 1, color = ''#fff''\<rparr>"
  have other: "Category_findOne (td_categoryId repeatingNoEnd) 2 (exampleDb []) = None"
    by (simp add: Category_findOne_def example_defs)
  from createTask_repeating_without_end [where taskData = repeatingNoEnd and userId = 2
      and d = "exampleDb []" and M = exampleModels and newId = 20] other
  have invalid: "createTask exampleModels 20 2 repeatingNoEnd (exampleDb []) =
     (Inl InvalidCategory, exampleDb [])"
    by blast
  have own: "Category_findOne (td_categoryId repeatingNoEnd) 1 (exampleDb []) = Some ?cat \<and>
      td_isRepeating repeatingNoEnd = Some True \<and> td_repeatEndDate repeatingNoEnd = None \<and>
      td_title repeatingNoEnd = Str (utf16 '' run '') \<and>
      defaultTo [] (td_description repeatingNoEnd) = Str []"
    by (simp add: Category_findOne_def defaultTo_def example_defs)
  from createTask_repeating_without_end [where taskData = repeatingNoEnd and userId = 1
      and d = "exampleDb []" and M = exampleModels and newId = 20] own
  obtain t where t: "task_id t = 20" "title t = trim (utf16 '' run '')" "isRepeating t"
      "repeatEndDate t = None"
    and run: "createTask exampleModels 20 1 repeatingNoEnd (exampleDb []) =
           (case Task_validate exampleModels t of
              Some e \<Rightarrow> (Inl e, exampleDb [])
            | None \<Rightarrow>
                (case updateStats exampleModels ?cat
                        ((exampleDb [])\<lparr>tasks := upsert task_id t (tasks (exampleDb []))\<rparr>) of
                   (Inl e, d3) \<Rightarrow> (Inl e, d3)
                 | (Inr _, d3) \<Rightarrow> (Inr t, d3)))"
    by blast
  from run have "createTask exampleModels 20 1 repeatingNoEnd (exampleDb []) =
      (Inr t, exampleDb [t])"
    by (simp add: exampleModels_def exampleDb_def upsert_def)
  with t have "\<exists>t. task_id t = 20 \<and> title t = trim (utf16 '' run '') \<and> isRepeating t \<and>
      repeatEndDate t = None \<and>
      createTask exampleModels 20 1 repeatingNoEnd (exampleDb []) = (Inr t, exampleDb [t])"
    by blast
  with other invalid own show ?thesis
    by blast
qed

text \<open>
  Claim C10. When the task found for the id and user is already completed,
  \<^verbatim>\<open>completeTask\<close> fails with the already-completed error and the database (tasks and
  growth albums) is as it was, whatever \<^verbatim>\<open>task.complete\<close> would do; and whenever
  \<^verbatim>\<open>completeTask\<close> returns, the task it found was not completed.
\<close>

theorem completeTask_already_completed:
  "(\<forall>t. Task_findOne taskId userId d = Some t \<and> isCompleted t \<longrightarrow>
      completeTask M newId userId taskId completionData d = (Inl TaskAlreadyCompleted, d)) \<and>
   (\<forall>r d1. completeTask M newId userId taskId completionData d = (Inr r, d1) \<longrightarrow>
      (\<exists>t. Task_findOne taskId userId d = Some t \<and> \<not> isCompleted t))"
proof -
  have rejected: "completeTask M newId userId taskId completionData d = (Inl TaskAlreadyCompleted, d)"
    if "Task_findOne taskId userId d = Some t \<and> isCompleted t" for t
    using that by (simp add: completeTask_def)
  have accepted: "\<exists>t. Task_findOne taskId userId d = Some t \<and> \<not> isCompleted t"
    if "completeTask M newId userId taskId completionData d = (Inr r, d1)" for r d1
    using that by (auto simp add: completeTask_def split: option.splits if_splits)
  from rejected accepted show ?thesis
    by blast
qed

theorem completeTask_already_completed_witness:
  "Task_findOne 10 1 (exampleDb [exampleTask 10 1 50 True]) = Some (exampleTask 10 1 50 True) \<and>
   isCompleted (exampleTask 10 1 50 True) \<and>
   completeTask exampleModels 30 1 10 \<lparr>cd_actualMinutes = Some 25, cd_growthAlbumData = None\<rparr>
       (exampleDb [exampleTask 10 1 50 True]) =
     (Inl TaskAlreadyCompleted, exampleDb [exampleTask 10 1 50 True]) \<and>
   completeTask exampleModels 30 1 10 \<lparr>cd_actualMinutes = Some 25, cd_growthAlbumData = None\<rparr>
       (exampleDb [exampleTask 10 1 50 False]) =
     (Inr (exampleTask 10 1 50 True, None), exampleDb [exampleTask 10 1 50 True]) \<and>
   (\<exists>t. Task_findOne 10 1 (exampleDb [exampleTask 10 1 50 False]) = Some t \<and> \<not> isCompleted t)"
proof -
  let ?c = "\<lparr>cd_actualMinutes = Some 25, cd_growthAlbumData = None\<rparr>"
  have found: "Task_findOne 10 1 (exampleDb [exampleTask 10 1 50 True]) =
      Some (exampleTask 10 1 50 True) \<and> isCompleted (exampleTask 10 1 50 True)"
    by (simp add: Task_findOne_def example_defs)
  from completeTask_already_completed [where taskId = 10 and userId = 1
      and d = "exampleDb [exampleTask 10 1 50 True]" and M = exampleModels and newId = 30
      and completionData = ?c] found
  have rejected: "completeTask exampleModels 30 1 10 ?c (exampleDb [exampleTask 10 1 50 True]) =
     (Inl TaskAlreadyCompleted, exampleDb [exampleTask 10 1 50 True])"
    by blast
  have completed: "completeTask exampleModels 30 1 10 ?c (exampleDb [exampleTask 10 1 50 False]) =
     (Inr (exampleTask 10 1 50 True, None), exampleDb [exampleTask 10 1 50 True])"
    by (simp add: completeTask_def Task_findOne_def upsert_def example_defs)
  from completeTask_already_completed [where taskId = 10 and userId = 1
      and d = "exampleDb [exampleTask 10 1 50 False]" and M = exampleModels and newId = 30
      and completionData = ?c] completed
  have pending: "\<exists>t. Task_findOne 10 1 (exampleDb [exampleTask 10 1 50 False]) = Some t \<and>
      \<not> isCompleted t"
    by blast
  from found rejected completed pending show ?thesis
    by blast
qed

section \<open>Coin transactions\<close>









text \<open>
  Claim C7. On a coin transaction whose status is not \<^verbatim>\<open>pending\<close>, both
  \<^verbatim>\<open>cancel\<close> and \<^verbatim>\<open>complete\<close> fail with an error; the document and the collection
  are as they were.
\<close>

theorem settled_transaction_immutable:
  assumes "status this \<noteq> Pending"
  shows "cancel reason this store = (Inl CannotCancel, this, store) \<and>
         complete_tx this store = (Inl AlreadyProcessed, this, store)"
  using assms by (simp add: cancel_def complete_tx_def)

theorem settled_transaction_immutable_witness:
  "status (exampleTx 1 1 1 Completed) \<noteq> Pending \<and>
   cancel (utf16 ''mistake'') (exampleTx 1 1 1 Completed) [exampleTx 1 1 1 Completed] =
     (Inl CannotCancel, exampleTx 1 1 1 Completed, [exampleTx 1 1 1 Completed]) \<and>
   complete_tx (exampleTx 1 1 1 Completed) [exampleTx 1 1 1 Completed] =
     (Inl AlreadyProcessed, exampleTx 1 1 1 Completed, [exampleTx 1 1 1 Completed])"
proof -
  have settled: "status (exampleTx 1 1 1 Completed) \<noteq> Pending"
    by (simp add: exampleTx_def)
  from settled settled_transaction_immutable [OF settled, of "utf16 ''mistake''"
      "[exampleTx 1 1 1 Completed]"]
  show ?thesis by simp
qed

section \<open>The best day of a week\<close>

text \<open>
  The reduction from any start value: the result is the start value, and nothing in the list
  exceeds it, or it is the first entry of the list that exceeds everything before it and the
  start value, and nothing after it exceeds it.
\<close>

lemma reduce_best:
  fixes b :: "'a dayData_scheme"
  assumes "foldl (\<lambda>best current. if minutes current > minutes best then current else best) b xs = r"
  shows "(r = b \<and> (\<forall>x \<in> set xs. minutes x \<le> minutes b)) \<or>
         (\<exists>ys zs. xs = ys @ r # zs \<and> minutes b < minutes r \<and>
            (\<forall>y \<in> set ys. minutes y < minutes r) \<and> (\<forall>z \<in> set zs. minutes z \<le> minutes r))"
  using assms
proof (induction xs arbitrary: b)
  case Nil
  then show ?case by simp
next
  case (Cons x xs)
  show ?case
  proof (cases "minutes x > minutes b")
    case True
    with Cons.prems
    have "foldl (\<lambda>best current. if minutes current > minutes best then current else best) x xs = r"
      by simp
    from Cons.IH [OF this] show ?thesis
    proof
      assume "r = x \<and> (\<forall>y \<in> set xs. minutes y \<le> minutes x)"
      with True have "x # xs = [] @ r # xs \<and> minutes b < minutes r \<and>
            (\<forall>y \<in> set []. minutes y < minutes r) \<and> (\<forall>z \<in> set xs. minutes z \<le> minutes r)"
        by simp
      then show ?thesis by blast
    next
      assume "\<exists>ys zs. xs = ys @ r # zs \<and> minutes x < minutes r \<and>
            (\<forall>y \<in> set ys. minutes y < minutes r) \<and> (\<forall>z \<in> set zs. minutes z \<le> minutes r)"
      then obtain ys zs where "xs = ys @ r # zs" "minutes x < minutes r"
        "\<forall>y \<in> set ys. minutes y < minutes r" "\<forall>z \<in> set zs. minutes z \<le> minutes r"
        by blast
      with True have "x # xs = (x # ys) @ r # zs \<and> minutes b < minutes r \<and>
            (\<forall>y \<in> set (x # ys). minutes y < minutes r) \<and> (\<forall>z \<in> set zs. minutes z \<le> minutes r)"
        by simp
      then show ?thesis by blast
    qed
  next
    case False
    with Cons.prems
    have "foldl (\<lambda>best current. if minutes current > minutes best then current else best) b xs = r"
      by simp
    from Cons.IH [OF this] show ?thesis
    proof
      assume "r = b \<and> (\<forall>y \<in> set xs. minutes y \<le> minutes b)"
      with False show ?thesis by simp
    next
      assume "\<exists>ys zs. xs = ys @ r # zs \<and> minutes b < minutes r \<and>
            (\<forall>y \<in> set ys. minutes y < minutes r) \<and> (\<forall>z \<in> set zs. minutes z \<le> minutes r)"
      then obtain ys zs where "xs = ys @ r # zs" "minutes b < minutes r"
        "\<forall>y \<in> set ys. minutes y < minutes r" "\<forall>z \<in> set zs. minutes z \<le> minutes r"
        by blast
      with False have "x # xs = (x # ys) @ r # zs \<and> minutes b < minutes r \<and>
            (\<forall>y \<in> set (x # ys). minutes y < minutes r) \<and> (\<forall>z \<in> set zs. minutes z \<le> minutes r)"
        by simp
      then show ?thesis by blast
    qed
  qed
qed

text \<open>
  Claim C8. For a week with at least one bucket, the best day is a bucket of the week with
  the maximum minutes, and the earliest such: every bucket before it has strictly fewer
  minutes, every bucket after it has at most as many.
\<close>

theorem bestDay_earliest_maximum:
  fixes weeklyData :: "'a dayData_scheme list"
  assumes "weeklyData \<noteq> []"
  shows "\<exists>best before after. bestDay weeklyData = Some best \<and>
           weeklyData = before @ best # after \<and>
           (\<forall>w \<in> set before. minutes w < minutes best) \<and>
           (\<forall>w \<in> set after. minutes w \<le> minutes best)"
proof -
  from assms obtain w0 ws where w: "weeklyData = w0 # ws"
    by (cases weeklyData) auto
  define r where
    "r = foldl (\<lambda>best current. if minutes current > minutes best then current else best) w0 ws"
  have best: "bestDay weeklyData = Some r"
    by (simp add: bestDay_def w r_def)
  from reduce_best [OF r_def [symmetric]] show ?thesis
  proof
    assume "r = w0 \<and> (\<forall>x \<in> set ws. minutes x \<le> minutes w0)"
    with best w have "bestDay weeklyData = Some r \<and> weeklyData = [] @ r # ws \<and>
           (\<forall>w \<in> set []. minutes w < minutes r) \<and> (\<forall>w \<in> set ws. minutes w \<le> minutes r)"
      by simp
    then show ?thesis by blast
  next
    assume "\<exists>ys zs. ws = ys @ r # zs \<and> minutes w0 < minutes r \<and>
            (\<forall>y \<in> set ys. minutes y < minutes r) \<and> (\<forall>z \<in> set zs. minutes z \<le> minutes r)"
    then obtain ys zs where "ws = ys @ r # zs" "minutes w0 < minutes r"
        "\<forall>y \<in> set ys. minutes y < minutes r" "\<forall>z \<in> set zs. minutes z \<le> minutes r"
      by blast
    with best w have "bestDay weeklyData = Some r \<and> weeklyData = (w0 # ys) @ r # zs \<and>
           (\<forall>w \<in> set (w0 # ys). minutes w < minutes r) \<and> (\<forall>w \<in> set zs. minutes w \<le> minutes r)"
      by simp
    then show ?thesis by blast
  qed
qed

theorem bestDay_earliest_maximum_witness:
  "exampleWeek \<noteq> [] \<and>
   bestDay exampleWeek = Some \<lparr>minutes = 30, weekday = ''tue''\<rparr> \<and>
   (\<exists>before after. exampleWeek = before @ \<lparr>minutes = 30, weekday = ''tue''\<rparr> # after \<and>
      list_all (\<lambda>w. minutes w < 30) before \<and> list_all (\<lambda>w. minutes w \<le> 30) after)"
proof -
  have nonempty: "exampleWeek \<noteq> []"
    by (simp add: exampleWeek_def)
  have tue: "bestDay exampleWeek = Some \<lparr>minutes = 30, weekday = ''tue''\<rparr>"
    by (simp add: bestDay_def exampleWeek_def)
  from bestDay_earliest_maximum [OF nonempty]
  obtain best before after where "bestDay exampleWeek = Some best"
    and "exampleWeek = before @ best # after"
    and "\<forall>w \<in> set before. minutes w < minutes best"
    and "\<forall>w \<in> set after. minutes w \<le> minutes best"
    by blast
  with tue have "exampleWeek = before @ \<lparr>minutes = 30, weekday = ''tue''\<rparr> # after \<and>
      list_all (\<lambda>w. minutes w < 30) before \<and> list_all (\<lambda>w. minutes w \<le> 30) after"
    by (simp add: list_all_iff)
  with nonempty tue show ?thesis
    by blast
qed

end
